theory Spec2Isabelle
  imports Main "HOL-Library.Word"
begin

section \<open>The event dispatcher of the libwayland bindings (wayland.go)\<close>

text \<open>
  The development embeds the exported function \<open>dispatcher\<close> of wayland.go, the
  registry \<open>Display.proxies\<close> with \<open>add\<close> and \<open>forget\<close>, the method cache
  \<open>Display.methods\<close>, the struct declarations of the proxy objects and the methods of
  the two internal representations (\<open>callback\<close> and \<open>wpPresentationFeedback\<close>).

  The platform is the one cgo gives the source on amd64: \<open>union wl_argument\<close> is
  eight bytes, little endian, \<open>int\<close> and \<open>uint\<close> are 64 bits wide,
  \<open>size_t\<close> is \<open>uint64\<close>.  A panic of the Go runtime or of package reflect is a
  value of type \<open>error\<close>; the dispatcher never recovers, so a panic ends the call.
\<close>

subsection \<open>Go types and values as package reflect sees them\<close>

type_synonym handle = "64 word"
type_synonym addr = "64 word"

text \<open>A user-supplied func value is known by an identity only; \<open>nil\<close> is \<open>None\<close>.\<close>

type_synonym closure = nat

text \<open>
  The types that occur as parameters or receivers of the callables in wayland.go:
  the predeclared integers and string, defined types (name and underlying type),
  pointers, slices and the named struct types.
\<close>

datatype gotype =
    TInt | TInt32 | TUint | TUint32 | TString
  | TNamed string gotype
  | TPtr gotype
  | TSlice gotype
  | TStruct string

datatype kind = KInt | KInt32 | KUint | KUint32 | KString | KPtr | KSlice | KStruct

fun kind_of :: "gotype \<Rightarrow> kind" where
  "kind_of TInt = KInt"
| "kind_of TInt32 = KInt32"
| "kind_of TUint = KUint"
| "kind_of TUint32 = KUint32"
| "kind_of TString = KString"
| "kind_of (TNamed n u) = kind_of u"
| "kind_of (TPtr t) = KPtr"
| "kind_of (TSlice t) = KSlice"
| "kind_of (TStruct n) = KStruct"

fun underlying :: "gotype \<Rightarrow> gotype" where
  "underlying (TNamed n u) = underlying u"
| "underlying t = t"

fun has_name :: "gotype \<Rightarrow> bool" where
  "has_name (TPtr t) = False"
| "has_name (TSlice t) = False"
| "has_name t = True"

text \<open>The struct types that \<open>Display.add\<close> registers.\<close>

datatype otype =
    Registry | Callback | WpPresentation | WpPresentationFeedback | Compositor
  | Surface | Shm | ShmPool | Buffer | XdgWmBase | XdgSurface | XdgToplevel
  | XdgDecorationManager | XdgToplevelDecoration | WpViewporter | WpViewport

text \<open>
  A proxy object: its struct type, its \<open>hnd\<close> field and its \<open>On...\<close> fields,
  a field that is \<open>nil\<close> being absent from \<open>slots\<close>.
\<close>

record obj =
  otyp :: otype
  hnd :: handle
  slots :: "string \<rightharpoonup> closure"

text \<open>
  \<open>reflect.Value\<close>: an integer with its dynamic type, a string, a slice header
  (element type, data pointer, length) and the pointer to an internal representation.
\<close>

datatype goval =
    VInt gotype int
  | VStr gotype string
  | VSlice gotype addr nat
  | VRecv gotype obj

fun type_of :: "goval \<Rightarrow> gotype" where
  "type_of (VInt t x) = t"
| "type_of (VStr t s) = t"
| "type_of (VSlice t p n) = t"
| "type_of (VRecv t ob) = t"

datatype error =
    PanicUnknownProxy
  | PanicIndexOutOfRange
  | PanicNoMethod string gotype
  | PanicNoField string otype
  | PanicN
  | PanicH
  | PanicRune char
  | PanicUnsupportedElem gotype
  | PanicFuncIndex
  | PanicElem gotype
  | PanicConvert gotype gotype
  | PanicCallTooFew
  | PanicCallTooMany
  | PanicCallUsing gotype gotype
  | PanicNilFunc
  | PanicFault
  | PanicUnsafeSliceNil
  | PanicUnsafeSliceLen
  | PanicUser
  | PanicNoBody

subsection \<open>The struct declarations and method sets\<close>

definition Ctype_wl_fixed_t :: gotype where
  "Ctype_wl_fixed_t = TNamed ''_Ctype_wl_fixed_t'' TInt32"

definition Output :: gotype where
  "Output = TNamed ''Output'' TUint32"

definition XdgToplevelDecorationMode :: gotype where
  "XdgToplevelDecorationMode = TNamed ''XdgToplevelDecorationMode'' TUint32"

text \<open>
  The func-typed fields of each struct with their parameter types.  The other fields
  (\<open>dsp\<close>, \<open>hnd\<close>, \<open>vers\<close>) are left out: the dispatcher looks up names that
  start with \<open>On\<close> only.
\<close>

fun struct_fields :: "otype \<Rightarrow> (string \<times> gotype list) list" where
  "struct_fields Registry =
     [(''OnGlobal'', [TUint32, TString, TUint32]), (''OnGlobalRemove'', [TUint32])]"
| "struct_fields Callback = [(''OnDone'', [TUint32])]"
| "struct_fields WpPresentation = [(''OnClock_id'', [TUint])]"
| "struct_fields WpPresentationFeedback =
     [(''OnSyncOutput'', [TPtr Output]),
      (''OnPresented'', [TUint32, TUint32, TUint32, TUint32, TUint32, TUint32, TUint32]),
      (''OnDiscarded'', [])]"
| "struct_fields Compositor = []"
| "struct_fields Surface = [(''OnPreferred_buffer_scale'', [TInt])]"
| "struct_fields Shm = [(''OnFormat'', [TUint32])]"
| "struct_fields ShmPool = []"
| "struct_fields Buffer = [(''OnRelease'', [])]"
| "struct_fields XdgWmBase = [(''OnPing'', [TUint32])]"
| "struct_fields XdgSurface = [(''OnConfigure'', [TUint32])]"
| "struct_fields XdgToplevel =
     [(''OnConfigure'', [TInt32, TInt32, TSlice TUint32]),
      (''OnClose'', []),
      (''OnWm_capabilities'', [TSlice TUint32])]"
| "struct_fields XdgDecorationManager = []"
| "struct_fields XdgToplevelDecoration = [(''OnConfigure'', [XdgToplevelDecorationMode])]"
| "struct_fields WpViewporter = []"
| "struct_fields WpViewport = []"

definition FieldByName :: "otype \<Rightarrow> string \<Rightarrow> gotype list option" where
  "FieldByName t nm = map_of (struct_fields t) nm"

text \<open>
  \<open>obj.(internaler)\<close>: only \<open>*Callback\<close> and \<open>*WpPresentationFeedback\<close> have
  the method \<open>internal\<close>; the result is the dynamic type of what it returns.
\<close>

definition callback_ptr :: gotype where
  "callback_ptr = TPtr (TStruct ''callback'')"

definition wpPresentationFeedback_ptr :: gotype where
  "wpPresentationFeedback_ptr = TPtr (TStruct ''wpPresentationFeedback'')"

fun internal_type :: "otype \<Rightarrow> gotype option" where
  "internal_type Callback = Some callback_ptr"
| "internal_type WpPresentationFeedback = Some wpPresentationFeedback_ptr"
| "internal_type t = None"

text \<open>
  \<open>reflect.Method\<close>: the name and the parameter types of \<open>Func\<close>, the receiver
  first.
\<close>

record reflect_method =
  meth_name :: string
  meth_in :: "gotype list"

definition method_set :: "gotype \<Rightarrow> (string \<times> gotype list) list" where
  "method_set typ =
     (if typ = callback_ptr then [(''Done'', [TUint32])]
      else if typ = wpPresentationFeedback_ptr then
        [(''Discarded'', []),
         (''Presented'', [TUint32, TUint32, TUint32, TUint32, TUint32, TUint32, TUint32]),
         (''SyncOutput'', [TPtr Output])]
      else [])"

definition MethodByName :: "gotype \<Rightarrow> string \<Rightarrow> reflect_method option" where
  "MethodByName typ nm =
     (case map_of (method_set typ) nm of
        None \<Rightarrow> None
      | Some ps \<Rightarrow> Some \<lparr>meth_name = nm, meth_in = typ # ps\<rparr>)"

subsection \<open>The display: registry and method cache\<close>

text \<open>
  \<open>Display.proxies\<close> and \<open>Display.methods\<close>.  The fields \<open>callArgs\<close> and
  \<open>methName\<close> are scratch space that every call of the dispatcher truncates before
  use; \<open>hnd\<close> and \<open>pinner\<close> belong to the transport.
\<close>

record display =
  proxies :: "handle \<rightharpoonup> obj"
  methods :: "(gotype \<times> string) \<rightharpoonup> reflect_method"

definition add :: "display \<Rightarrow> handle \<Rightarrow> obj \<Rightarrow> display" where
  "add dsp proxy ob = dsp\<lparr>proxies := (proxies dsp)(proxy \<mapsto> ob)\<rparr>"

definition forget :: "(handle \<rightharpoonup> obj) \<Rightarrow> handle \<Rightarrow> (handle \<rightharpoonup> obj)" where
  "forget ps proxy = ps(proxy := None)"

subsection \<open>What the dispatcher reads\<close>

record wl_message =
  msg_name :: string
  msg_signature :: string

record wl_array =
  arr_size :: "64 word"
  arr_alloc :: "64 word"
  arr_data :: addr

text \<open>
  The C memory behind the pointers of an argument buffer: the NUL-terminated string
  at an address (without its NUL) and the \<open>wl_array\<close> at an address.  A read of an
  address that holds neither is a fault.
\<close>

record memory =
  cstrings :: "addr \<rightharpoonup> string"
  arrays :: "addr \<rightharpoonup> wl_array"

text \<open>
  What the dispatcher does beyond its result: the two reflective lookups and the calls.
\<close>

datatype event =
    EvMethodByName gotype string
  | EvFieldByName otype string
  | EvCallMethod string "goval list"
  | EvCallUser closure "goval list"

text \<open>
  The code behind a user callback is not part of wayland.go.  It is a parameter: what
  calling closure \<open>c\<close> with the arguments does to the registry (it may add and destroy
  objects and set their callbacks), \<open>None\<close> when it panics.
\<close>

type_synonym usr = "closure \<Rightarrow> goval list \<Rightarrow> (handle \<rightharpoonup> obj) \<Rightarrow> (handle \<rightharpoonup> obj) option"

subsection \<open>Package reflect, cgo and unsafe\<close>

text \<open>\<open>Type.In\<close>: an index out of range panics.\<close>

definition In_type :: "gotype list \<Rightarrow> nat \<Rightarrow> error + gotype" where
  "In_type ins i = (if i < length ins then Inr (ins ! i) else Inl PanicFuncIndex)"

text \<open>\<open>Type.Elem\<close>: panics unless the kind has an element type.\<close>

fun Elem_type :: "gotype \<Rightarrow> error + gotype" where
  "Elem_type (TPtr t) = Inr t"
| "Elem_type (TSlice t) = Inr t"
| "Elem_type (TNamed n u) =
     (case Elem_type u of Inl e \<Rightarrow> Inl (PanicElem (TNamed n u)) | Inr t \<Rightarrow> Inr t)"
| "Elem_type t = Inl (PanicElem t)"

text \<open>
  \<open>string(rune(x))\<close>: the UTF-8 encoding of a valid code point, U+FFFD otherwise.
\<close>

definition rune_string :: "int \<Rightarrow> string" where
  "rune_string x =
     (let r = nat x in
      if x < 0 \<or> 1114111 < x \<or> (55296 \<le> x \<and> x \<le> 57343) then
        [char_of (239::nat), char_of (191::nat), char_of (189::nat)]
      else if r < 128 then [char_of r]
      else if r < 2048 then [char_of (192 + r div 64), char_of (128 + r mod 64)]
      else if r < 65536 then
        [char_of (224 + r div 4096), char_of (128 + (r div 64) mod 64), char_of (128 + r mod 64)]
      else
        [char_of (240 + r div 262144), char_of (128 + (r div 4096) mod 64),
         char_of (128 + (r div 64) mod 64), char_of (128 + r mod 64)])"

text \<open>
  \<open>Value.Convert\<close> of an integer: to an integer kind the value is truncated to the
  width and read with the signedness of the target, to a string kind it becomes the
  string of the code point, to any other kind the conversion panics.
\<close>

definition Convert :: "gotype \<Rightarrow> int \<Rightarrow> gotype \<Rightarrow> error + goval" where
  "Convert src x t =
     (case kind_of t of
        KInt \<Rightarrow> Inr (VInt t ((x + 2 ^ 63) mod 2 ^ 64 - 2 ^ 63))
      | KInt32 \<Rightarrow> Inr (VInt t ((x + 2 ^ 31) mod 2 ^ 32 - 2 ^ 31))
      | KUint \<Rightarrow> Inr (VInt t (x mod 2 ^ 64))
      | KUint32 \<Rightarrow> Inr (VInt t (x mod 2 ^ 32))
      | KString \<Rightarrow> Inr (VStr t (rune_string x))
      | _ \<Rightarrow> Inl (PanicConvert src t))"

text \<open>
  \<open>Type.AssignableTo\<close>: identical types, or not both named and identical underlying
  pointer or slice types.
\<close>

definition assignable :: "gotype \<Rightarrow> gotype \<Rightarrow> bool" where
  "assignable v t =
     (v = t \<or>
      (\<not> (has_name v \<and> has_name t) \<and>
       (case (underlying v, underlying t) of
          (TPtr a, TPtr b) \<Rightarrow> a = b
        | (TSlice a, TSlice b) \<Rightarrow> a = b
        | _ \<Rightarrow> False)))"

text \<open>
  The checks of \<open>Value.Call\<close> before the call: the number of arguments, then the type
  of each argument against the parameter, in order.
\<close>

fun call_types :: "gotype list \<Rightarrow> goval list \<Rightarrow> error option" where
  "call_types (t # ts) (v # vs) =
     (if assignable (type_of v) t then call_types ts vs
      else Some (PanicCallUsing (type_of v) t))"
| "call_types ts vs = None"

definition call_check :: "gotype list \<Rightarrow> goval list \<Rightarrow> error option" where
  "call_check ins vs =
     (if length vs < length ins then Some PanicCallTooFew
      else if length ins < length vs then Some PanicCallTooMany
      else call_types ins vs)"

text \<open>\<open>C.GoString\<close>: the empty string for a null pointer, else the string there.\<close>

definition GoString :: "memory \<Rightarrow> addr \<Rightarrow> error + string" where
  "GoString mem p =
     (if p = 0 then Inr []
      else case cstrings mem p of None \<Rightarrow> Inl PanicFault | Some s \<Rightarrow> Inr s)"

text \<open>
  \<open>unsafe.Slice\<close> for a 4-byte element type: panics when the slice would not fit
  between the pointer and the end of the address space, which for a null pointer is
  every length but 0.
\<close>

definition unsafe_Slice :: "gotype \<Rightarrow> addr \<Rightarrow> nat \<Rightarrow> error + goval" where
  "unsafe_Slice elem p n =
     (if unat (- p) < 4 * n then
        (if p = 0 then Inl PanicUnsafeSliceNil else Inl PanicUnsafeSliceLen)
      else Inr (VSlice (TSlice elem) p n))"

text \<open>
  \<open>unicode.ToUpper\<close> of a byte taken as a code point, converted back to a byte.
\<close>

definition toUpper_byte :: "char \<Rightarrow> char" where
  "toUpper_byte b =
     (let r = (of_char b :: nat) in
      char_of
        (if r \<le> 127 then (if 97 \<le> r \<and> r \<le> 122 then r - 32 else r)
         else if r = 181 then r + 743
         else if (224 \<le> r \<and> r \<le> 246) \<or> (248 \<le> r \<and> r \<le> 254) then r - 32
         else if r = 255 then r + 121
         else r))"

subsection \<open>The methods of the internal representations\<close>

text \<open>
  A call through a callback field of the receiver, as \<open>p.OnPresented(...)\<close> is: a
  \<open>nil\<close> field makes the call panic.
\<close>

definition call_field ::
  "usr \<Rightarrow> obj \<Rightarrow> string \<Rightarrow> goval list \<Rightarrow> (handle \<rightharpoonup> obj) \<Rightarrow>
   (error + (handle \<rightharpoonup> obj)) \<times> event list" where
  "call_field usr ob fld vs ps =
     (case slots ob fld of
        None \<Rightarrow> (Inl PanicNilFunc, [])
      | Some c \<Rightarrow>
          (case usr c vs ps of
             None \<Rightarrow> (Inl PanicUser, [EvCallUser c vs])
           | Some ps' \<Rightarrow> (Inr ps', [EvCallUser c vs])))"

text \<open>
  \<open>callback.Done\<close> calls \<open>OnDone\<close> and then \<open>Destroy\<close>, which forgets the handle;
  \<open>wpPresentationFeedback.SyncOutput\<close> calls \<open>OnSyncOutput\<close>; \<open>Presented\<close> and
  \<open>Discarded\<close> call their field and then forget the handle.
\<close>

definition then_forget ::
  "handle \<Rightarrow> (error + (handle \<rightharpoonup> obj)) \<times> event list \<Rightarrow>
   (error + (handle \<rightharpoonup> obj)) \<times> event list" where
  "then_forget h r =
     (case r of
        (Inl e, evs) \<Rightarrow> (Inl e, evs)
      | (Inr ps, evs) \<Rightarrow> (Inr (forget ps h), evs))"

definition method_body ::
  "usr \<Rightarrow> gotype \<Rightarrow> string \<Rightarrow> obj \<Rightarrow> goval list \<Rightarrow> (handle \<rightharpoonup> obj) \<Rightarrow>
   (error + (handle \<rightharpoonup> obj)) \<times> event list" where
  "method_body usr typ nm ob vs ps =
     (if typ = callback_ptr \<and> nm = ''Done'' then
        then_forget (hnd ob) (call_field usr ob ''OnDone'' vs ps)
      else if typ = wpPresentationFeedback_ptr \<and> nm = ''SyncOutput'' then
        call_field usr ob ''OnSyncOutput'' vs ps
      else if typ = wpPresentationFeedback_ptr \<and> nm = ''Presented'' then
        then_forget (hnd ob) (call_field usr ob ''OnPresented'' vs ps)
      else if typ = wpPresentationFeedback_ptr \<and> nm = ''Discarded'' then
        then_forget (hnd ob) (call_field usr ob ''OnDiscarded'' vs ps)
      else (Inl PanicNoBody, []))"

subsection \<open>The dispatcher\<close>

text \<open>
  Lines 198 to 209: the method name is the event name with its first byte in upper
  case; indexing the first byte of an empty name panics.
\<close>

definition methName_of :: "string \<Rightarrow> error + string" where
  "methName_of nm =
     (case nm of
        [] \<Rightarrow> Inl PanicIndexOutOfRange
      | c # cs \<Rightarrow> Inr (toUpper_byte c # cs))"

text \<open>
  The resolved callable \<open>meth\<close>: the \<open>Func\<close> of a method, which is never
  \<open>nil\<close>, or the value of a field with the field's parameter types.
\<close>

datatype callable =
    MethodFunc reflect_method
  | FieldFunc "gotype list" "closure option"

fun IsNil :: "callable \<Rightarrow> bool" where
  "IsNil (MethodFunc m) = False"
| "IsNil (FieldFunc ins c) = (c = None)"

fun func_in :: "callable \<Rightarrow> gotype list" where
  "func_in (MethodFunc m) = meth_in m"
| "func_in (FieldFunc ins c) = ins"

text \<open>
  Lines 212 to 234.  With an internal representation the method comes from the cache
  \<open>methods\<close>, and from \<open>MethodByName\<close> on a miss, which fills the cache; the
  receiver is the internal representation.  Without one, \<open>FieldByName\<close> looks up the
  field \<open>On\<close> followed by the method name, and there is no receiver.
\<close>

definition resolve ::
  "display \<Rightarrow> obj \<Rightarrow> string \<Rightarrow>
   (error + display \<times> callable \<times> goval option) \<times> event list" where
  "resolve dsp ob methName =
     (case internal_type (otyp ob) of
        Some typ \<Rightarrow>
          (case methods dsp (typ, methName) of
             Some tmeth \<Rightarrow> (Inr (dsp, MethodFunc tmeth, Some (VRecv typ ob)), [])
           | None \<Rightarrow>
               (case MethodByName typ methName of
                  None \<Rightarrow> (Inl (PanicNoMethod methName typ), [EvMethodByName typ methName])
                | Some tmeth \<Rightarrow>
                    (Inr (dsp\<lparr>methods := (methods dsp)((typ, methName) \<mapsto> tmeth)\<rparr>,
                          MethodFunc tmeth, Some (VRecv typ ob)),
                     [EvMethodByName typ methName])))
      | None \<Rightarrow>
          (case FieldByName (otyp ob) (''On'' @ methName) of
             None \<Rightarrow>
               (Inl (PanicNoField (''On'' @ methName) (otyp ob)),
                [EvFieldByName (otyp ob) (''On'' @ methName)])
           | Some ins \<Rightarrow>
               (Inr (dsp, FieldFunc ins (slots ob (''On'' @ methName)), None),
                [EvFieldByName (otyp ob) (''On'' @ methName)])))"

text \<open>
  The body of the loop over the signature, lines 249 to 290, for one character:
  \<open>slot\<close> is the union at index \<open>i + argOffset\<close> of the argument buffer, \<open>ins\<close> the
  parameter types of \<open>meth\<close>.  The result is the value appended to \<open>callArgs\<close>, or
  \<open>None\<close> where the source says \<open>continue\<close>.  The 32-bit members of the union are
  its low four bytes.  The source ranges over the code points of the signature; here
  every byte is one character, and a byte outside ASCII panics as its code point does.
\<close>

definition is_digit :: "char \<Rightarrow> bool" where
  "is_digit c = (c \<in> set ''0123456789'')"

definition decode_tag ::
  "memory \<Rightarrow> gotype list \<Rightarrow> 64 word \<Rightarrow> nat \<Rightarrow> char \<Rightarrow> error + goval option" where
  "decode_tag mem ins slot i c =
     (if c = CHR ''i'' then
        (case In_type ins i of
           Inl e \<Rightarrow> Inl e
         | Inr t \<Rightarrow> map_sum id Some (Convert TInt32 (sint (ucast slot :: 32 word)) t))
      else if c = CHR ''u'' then
        (case In_type ins i of
           Inl e \<Rightarrow> Inl e
         | Inr t \<Rightarrow> map_sum id Some (Convert TUint32 (uint (ucast slot :: 32 word)) t))
      else if c = CHR ''f'' then
        Inr (Some (VInt Ctype_wl_fixed_t (sint (ucast slot :: 32 word))))
      else if c = CHR ''s'' then
        map_sum id (\<lambda>s. Some (VStr TString s)) (GoString mem slot)
      else if c = CHR ''o'' then
        (case In_type ins i of
           Inl e \<Rightarrow> Inl e
         | Inr t \<Rightarrow> map_sum id Some (Convert TUint32 (uint (ucast slot :: 32 word)) t))
      else if c = CHR ''n'' then Inl PanicN
      else if c = CHR ''a'' then
        (case In_type ins i of
           Inl e \<Rightarrow> Inl e
         | Inr t \<Rightarrow>
             (case Elem_type t of
                Inl e \<Rightarrow> Inl e
              | Inr elem \<Rightarrow>
                  if elem = TInt32 \<or> elem = TUint32 then
                    (case arrays mem slot of
                       None \<Rightarrow> Inl PanicFault
                     | Some arr \<Rightarrow>
                         map_sum id Some
                           (unsafe_Slice elem (arr_data arr) (unat (arr_size arr) div 4)))
                  else Inl (PanicUnsupportedElem elem)))
      else if c = CHR ''h'' then Inl PanicH
      else if c = CHR ''?'' then Inr None
      else if is_digit c then Inr None
      else Inl (PanicRune c))"

text \<open>
  The loop, lines 248 to 292: \<open>i\<close> counts the parameters filled so far (the receiver
  included), \<open>args\<close> is the memory at the argument pointer, indexed in unions.
\<close>

fun decode_args ::
  "memory \<Rightarrow> gotype list \<Rightarrow> (int \<Rightarrow> 64 word) \<Rightarrow> nat \<Rightarrow> int \<Rightarrow> string \<Rightarrow> goval list \<Rightarrow>
   error + goval list" where
  "decode_args mem ins args i argOffset [] callArgs = Inr callArgs"
| "decode_args mem ins args i argOffset (c # sig) callArgs =
     (case decode_tag mem ins (args (int i + argOffset)) i c of
        Inl e \<Rightarrow> Inl e
      | Inr None \<Rightarrow> decode_args mem ins args i argOffset sig callArgs
      | Inr (Some v) \<Rightarrow> decode_args mem ins args (i + 1) argOffset sig (callArgs @ [v]))"

text \<open>
  \<open>meth.Call(callArgs)\<close>, line 294: \<open>Value.Call\<close> panics on a \<open>nil\<close> func,
  then makes its checks, then calls: the user's closure for a field, the method body
  for a method.  The arguments of a method start with the receiver; the dispatcher
  never makes a call where they do not.
\<close>

definition Call ::
  "usr \<Rightarrow> callable \<Rightarrow> goval list \<Rightarrow> (handle \<rightharpoonup> obj) \<Rightarrow>
   (error + (handle \<rightharpoonup> obj)) \<times> event list" where
  "Call usr meth callArgs ps =
     (if IsNil meth then (Inl PanicNilFunc, [])
      else
        (case call_check (func_in meth) callArgs of
           Some e \<Rightarrow> (Inl e, [])
         | None \<Rightarrow>
             (case meth of
                FieldFunc ins None \<Rightarrow> (Inl PanicNilFunc, [])
              | FieldFunc ins (Some c) \<Rightarrow>
                  (case usr c callArgs ps of
                     None \<Rightarrow> (Inl PanicUser, [EvCallUser c callArgs])
                   | Some ps' \<Rightarrow> (Inr ps', [EvCallUser c callArgs]))
              | MethodFunc m \<Rightarrow>
                  (case callArgs of
                     VRecv typ ob # vs \<Rightarrow>
                       (case method_body usr typ (meth_name m) ob vs ps of
                          (r, evs) \<Rightarrow> (r, EvCallMethod (meth_name m) callArgs # evs))
                   | _ \<Rightarrow> (Inl PanicNoBody, [])))))"

text \<open>
  The exported function.  The result is a panic or the display after the call, with
  the events of the call in order.
\<close>

definition dispatcher ::
  "usr \<Rightarrow> memory \<Rightarrow> display \<Rightarrow> handle \<Rightarrow> wl_message \<Rightarrow> (int \<Rightarrow> 64 word) \<Rightarrow>
   (error + display) \<times> event list" where
  "dispatcher usr mem dsp target msg args =
     (case proxies dsp target of
        None \<Rightarrow> (Inl PanicUnknownProxy, [])
      | Some ob \<Rightarrow>
          (case methName_of (msg_name msg) of
             Inl e \<Rightarrow> (Inl e, [])
           | Inr methName \<Rightarrow>
               (case resolve dsp ob methName of
                  (Inl e, evs) \<Rightarrow> (Inl e, evs)
                | (Inr (dsp1, meth, recv), evs) \<Rightarrow>
                    if IsNil meth then (Inr dsp1, evs)
                    else
                      (case decode_args mem (func_in meth) args
                              (case recv of None \<Rightarrow> 0 | Some r \<Rightarrow> 1)
                              (case recv of None \<Rightarrow> 0 | Some r \<Rightarrow> - 1)
                              (msg_signature msg)
                              (case recv of None \<Rightarrow> [] | Some r \<Rightarrow> [r]) of
                         Inl e \<Rightarrow> (Inl e, evs)
                       | Inr callArgs \<Rightarrow>
                           (case Call usr meth callArgs (proxies dsp1) of
                              (Inl e, evs') \<Rightarrow> (Inl e, evs @ evs')
                            | (Inr ps, evs') \<Rightarrow> (Inr (dsp1\<lparr>proxies := ps\<rparr>), evs @ evs'))))))"

text \<open>The calls and the reflective lookups among the events of a trace.\<close>

fun calls :: "event list \<Rightarrow> event list" where
  "calls [] = []"
| "calls (EvCallUser c vs # evs) = EvCallUser c vs # calls evs"
| "calls (EvCallMethod n vs # evs) = EvCallMethod n vs # calls evs"
| "calls (ev # evs) = calls evs"

fun lookups :: "event list \<Rightarrow> event list" where
  "lookups [] = []"
| "lookups (EvMethodByName t n # evs) = EvMethodByName t n # lookups evs"
| "lookups (EvFieldByName t n # evs) = EvFieldByName t n # lookups evs"
| "lookups (ev # evs) = lookups evs"

text \<open>
  The characters at which the loop says \<open>continue\<close>, and the characters of a
  signature that are left: the tags that stand for an argument.
\<close>

definition skipped :: "char \<Rightarrow> bool" where
  "skipped c = (c = CHR ''?'' \<or> is_digit c)"

definition arg_tags :: "string \<Rightarrow> string" where
  "arg_tags sig = filter (\<lambda>c. \<not> skipped c) sig"

text \<open>
  The cache holds nothing but what \<open>MethodByName\<close> returned.  \<open>Connect\<close>
  creates the cache empty and only the dispatcher writes to it.
\<close>

definition cache_sound :: "display \<Rightarrow> bool" where
  "cache_sound dsp =
     (\<forall>typ nm m. methods dsp (typ, nm) = Some m \<longrightarrow> MethodByName typ nm = Some m)"

text \<open>The low four bytes of a union read as a \<open>uint32\<close>.\<close>

definition uint32_of_slot :: "64 word \<Rightarrow> goval" where
  "uint32_of_slot w = VInt TUint32 (uint (ucast w :: 32 word))"

subsection \<open>Concrete objects, displays and messages\<close>

text \<open>A user callback that returns and leaves the registry as it is.\<close>

definition usr_quiet :: usr where
  "usr_quiet c vs ps = Some ps"

definition memory_empty :: memory where
  "memory_empty = \<lparr>cstrings = Map.empty, arrays = Map.empty\<rparr>"

text \<open>An argument buffer that holds the same word in every union.\<close>

definition args_const :: "64 word \<Rightarrow> int \<Rightarrow> 64 word" where
  "args_const w k = w"

text \<open>
  A \<open>Surface\<close> with handle 1 whose \<open>OnPreferred_buffer_scale\<close> is closure 7, the
  display that holds it, and the event \<open>preferred_buffer_scale\<close>.
\<close>

definition surface_1 :: obj where
  "surface_1 = \<lparr>otyp = Surface, hnd = 1, slots = [''OnPreferred_buffer_scale'' \<mapsto> 7]\<rparr>"

definition display_surface :: display where
  "display_surface = \<lparr>proxies = [1 \<mapsto> surface_1], methods = Map.empty\<rparr>"

definition msg_scale :: wl_message where
  "msg_scale = \<lparr>msg_name = ''preferred_buffer_scale'', msg_signature = ''i''\<rparr>"

text \<open>
  A \<open>WpPresentationFeedback\<close> with handle 5 as \<open>WpPresentation.Feedback\<close> creates
  it, on which the user has set \<open>OnPresented\<close> (closure 3) and nothing else, the
  display that holds it, and the event \<open>discarded\<close>, which has no arguments.
\<close>

definition feedback_5 :: obj where
  "feedback_5 = \<lparr>otyp = WpPresentationFeedback, hnd = 5, slots = [''OnPresented'' \<mapsto> 3]\<rparr>"

definition display_feedback :: display where
  "display_feedback = \<lparr>proxies = [5 \<mapsto> feedback_5], methods = Map.empty\<rparr>"

definition msg_discarded :: wl_message where
  "msg_discarded = \<lparr>msg_name = ''discarded'', msg_signature = []\<rparr>"

text \<open>The method \<open>Presented\<close> and the display above with that method in its cache.\<close>

definition presented_method :: reflect_method where
  "presented_method =
     \<lparr>meth_name = ''Presented'',
      meth_in = [wpPresentationFeedback_ptr,
                 TUint32, TUint32, TUint32, TUint32, TUint32, TUint32, TUint32]\<rparr>"

definition display_feedback_cached :: display where
  "display_feedback_cached =
     \<lparr>proxies = [5 \<mapsto> feedback_5],
      methods = [(wpPresentationFeedback_ptr, ''Presented'') \<mapsto> presented_method]\<rparr>"

text \<open>
  A \<open>Registry\<close> with handle 9 whose \<open>OnGlobal\<close> is closure 4, and the event
  \<open>global\<close> with the signature \<open>uuu\<close> in place of \<open>usu\<close>; the argument buffer
  holds 1, 65 and 3.
\<close>

definition registry_9 :: obj where
  "registry_9 = \<lparr>otyp = Registry, hnd = 9, slots = [''OnGlobal'' \<mapsto> 4]\<rparr>"

definition display_registry :: display where
  "display_registry = \<lparr>proxies = [9 \<mapsto> registry_9], methods = Map.empty\<rparr>"

definition msg_global_uuu :: wl_message where
  "msg_global_uuu = \<lparr>msg_name = ''global'', msg_signature = ''uuu''\<rparr>"

definition args_global :: "int \<Rightarrow> 64 word" where
  "args_global k = (if k = 0 then 1 else if k = 1 then 65 else 3)"

text \<open>The event \<open>preferred_buffer_scale\<close> with a file descriptor tag in its signature.\<close>

definition msg_scale_h :: wl_message where
  "msg_scale_h = \<lparr>msg_name = ''preferred_buffer_scale'', msg_signature = ''ihu''\<rparr>"

text \<open>A memory with one \<open>wl_array\<close> at address 16: seven bytes of data at 4096.\<close>

definition memory_array :: memory where
  "memory_array =
     \<lparr>cstrings = Map.empty,
      arrays = [16 \<mapsto> \<lparr>arr_size = 7, arr_alloc = 8, arr_data = 4096\<rparr>]\<rparr>"

text \<open>The event \<open>presented\<close> of \<open>wp_presentation_feedback\<close>.\<close>

definition msg_presented :: wl_message where
  "msg_presented = \<lparr>msg_name = ''presented'', msg_signature = ''uuuuuuu''\<rparr>"

section \<open>Properties\<close>

subsection \<open>Evaluation of names\<close>

lemma toUpper_byte_p: "toUpper_byte CHR ''p'' = CHR ''P''"
  by code_simp

lemma toUpper_byte_d: "toUpper_byte CHR ''d'' = CHR ''D''"
  by code_simp

lemma toUpper_byte_g: "toUpper_byte CHR ''g'' = CHR ''G''"
  by code_simp

lemma methName_scale: "methName_of ''preferred_buffer_scale'' = Inr ''Preferred_buffer_scale''"
  by (simp add: methName_of_def toUpper_byte_p)

lemma methName_presented: "methName_of ''presented'' = Inr ''Presented''"
  by (simp add: methName_of_def toUpper_byte_p)

lemma MethodByName_Presented:
  "MethodByName wpPresentationFeedback_ptr ''Presented'' = Some presented_method"
  by (simp add: MethodByName_def method_set_def presented_method_def callback_ptr_def
      wpPresentationFeedback_ptr_def)

subsection \<open>Unknown handles\<close>

text \<open>
  C4.  A message whose target has no entry in the registry, because it was never added
  or because it has been forgotten, makes the dispatcher panic at once: no lookup and
  no call happens, and neither the message nor the argument buffer is looked at.
\<close>

theorem unknown_handle_is_fatal:
  "(proxies dsp target = None \<longrightarrow>
      dispatcher usr mem dsp target msg args = (Inl PanicUnknownProxy, []))
   \<and> dispatcher usr mem (dsp\<lparr>proxies := forget (proxies dsp) target\<rparr>) target msg args
       = (Inl PanicUnknownProxy, [])"
  by (simp add: dispatcher_def forget_def)

theorem unknown_handle_is_fatal_witness:
  "proxies display_surface 2 = None \<and>
   dispatcher usr_quiet memory_empty display_surface 2 msg_scale (args_const 2)
     = (Inl PanicUnknownProxy, [])"
  using unknown_handle_is_fatal
    [of display_surface 2 usr_quiet memory_empty msg_scale "args_const 2"]
  by (simp add: display_surface_def)

subsection \<open>The decoder\<close>

lemma decode_tag_digit: "is_digit c \<Longrightarrow> decode_tag mem ins slot i c = Inr None"
  by (auto simp: decode_tag_def is_digit_def)

lemma decode_args_filter_digits:
  "decode_args mem ins args i argOffset (filter (\<lambda>c. \<not> is_digit c) sig) callArgs
     = decode_args mem ins args i argOffset sig callArgs"
proof (induction sig arbitrary: i callArgs)
  case Nil
  show ?case by simp
next
  case (Cons c sig)
  show ?case
  proof (cases "is_digit c")
    case True
    then show ?thesis using Cons by (simp add: decode_tag_digit)
  next
    case False
    then show ?thesis using Cons by (simp split: sum.splits option.splits)
  qed
qed

text \<open>
  C7.  A digit of the signature appends no argument and does not advance the slot
  index: decoding a signature gives the same result, read from the same slots, as
  decoding the signature with its digits taken out, or with any one digit taken out.
\<close>

theorem digits_consume_nothing:
  "decode_args mem ins args i argOffset (filter (\<lambda>c. \<not> is_digit c) sig) callArgs
     = decode_args mem ins args i argOffset sig callArgs
   \<and> (is_digit d \<longrightarrow>
        decode_tag mem ins slot j d = Inr None
        \<and> decode_args mem ins args i argOffset (pre @ d # post) callArgs
            = decode_args mem ins args i argOffset (pre @ post) callArgs)"
proof (intro conjI impI)
  show "decode_args mem ins args i argOffset (filter (\<lambda>c. \<not> is_digit c) sig) callArgs
     = decode_args mem ins args i argOffset sig callArgs"
    by (rule decode_args_filter_digits)
next
  assume d: "is_digit d"
  then show "decode_tag mem ins slot j d = Inr None" by (rule decode_tag_digit)
  have "filter (\<lambda>c. \<not> is_digit c) (pre @ d # post) = filter (\<lambda>c. \<not> is_digit c) (pre @ post)"
    using d by simp
  then show "decode_args mem ins args i argOffset (pre @ d # post) callArgs
            = decode_args mem ins args i argOffset (pre @ post) callArgs"
    using decode_args_filter_digits [of mem ins args i argOffset "pre @ d # post" callArgs]
      decode_args_filter_digits [of mem ins args i argOffset "pre @ post" callArgs]
    by simp
qed

theorem digits_consume_nothing_witness:
  "is_digit CHR ''6''
   \<and> decode_tag memory_empty [TInt] 2 0 CHR ''6'' = Inr None
   \<and> decode_args memory_empty [TInt] (args_const 2) 0 0 ''6i'' [] = Inr [VInt TInt 2]
   \<and> decode_args memory_empty [TInt] (args_const 2) 0 0 ''i'' [] = Inr [VInt TInt 2]"
proof -
  have d: "is_digit CHR ''6''" by (simp add: is_digit_def)
  have i: "decode_args memory_empty [TInt] (args_const 2) 0 0 ''i'' [] = Inr [VInt TInt 2]"
    by (simp add: decode_tag_def In_type_def Convert_def args_const_def)
  from digits_consume_nothing [of memory_empty "[TInt]" "args_const 2" 0 0 "''6i''" "[]"
      "CHR ''6''" 2 0 "[]" "''i''"] d
  have "decode_tag memory_empty [TInt] 2 0 CHR ''6'' = Inr None"
    and "decode_args memory_empty [TInt] (args_const 2) 0 0 ([] @ CHR ''6'' # ''i'') []
            = decode_args memory_empty [TInt] (args_const 2) 0 0 ([] @ ''i'') []"
    by blast+
  with d i show ?thesis by simp
qed

text \<open>
  C6.  With the signature \<open>?s\<close> and a null pointer in the string slot the decoder
  appends the empty string.  It does so for every memory, also one that holds nothing
  at any address: the null pointer is not read.
\<close>

theorem nullable_null_string:
  "args (int i + argOffset) = 0 \<Longrightarrow>
   decode_args mem ins args i argOffset ''?s'' callArgs = Inr (callArgs @ [VStr TString []])"
  by (simp add: decode_tag_def GoString_def)

theorem nullable_null_string_witness:
  "args_const 0 (int 0 + 0) = 0 \<and>
   decode_args memory_empty [TString] (args_const 0) 0 0 ''?s'' [] = Inr ([] @ [VStr TString []])"
  using nullable_null_string [of "args_const 0" 0 0 memory_empty "[TString]" "[]"]
  by (simp add: args_const_def)

lemma decode_tag_None_iff: "decode_tag mem ins slot i c = Inr None \<longleftrightarrow> skipped c"
  by (auto simp: decode_tag_def skipped_def is_digit_def map_sum_def
      split: sum.splits option.splits)

text \<open>
  Decoding a signature in two parts: after the first part the parameter index has
  advanced by the number of its argument tags.
\<close>

lemma decode_args_append:
  "decode_args mem ins args i off (pre @ c # post) acc
     = (case decode_args mem ins args i off pre acc of
          Inl e \<Rightarrow> Inl e
        | Inr acc' \<Rightarrow> decode_args mem ins args (i + length (arg_tags pre)) off (c # post) acc')"
proof (induction pre arbitrary: i acc)
  case Nil
  show ?case by (simp add: arg_tags_def)
next
  case (Cons a pre)
  show ?case
  proof (cases "decode_tag mem ins (args (int i + off)) i a")
    case (Inl e)
    then show ?thesis by simp
  next
    case (Inr r)
    show ?thesis
    proof (cases r)
      case None
      with Inr have "skipped a"
        using decode_tag_None_iff [of mem ins "args (int i + off)" i a] by simp
      with Inr None Cons show ?thesis by (simp add: arg_tags_def split: sum.splits)
    next
      case (Some v)
      with Inr have "\<not> skipped a"
        using decode_tag_None_iff [of mem ins "args (int i + off)" i a] by simp
      with Inr Some Cons show ?thesis by (simp add: arg_tags_def split: sum.splits)
    qed
  qed
qed

lemma decode_tag_unsupported:
  "c \<notin> set ''iufsoa?0123456789'' \<Longrightarrow>
   decode_tag mem ins slot i c
     = Inl (if c = CHR ''n'' then PanicN else if c = CHR ''h'' then PanicH else PanicRune c)"
  by (auto simp: decode_tag_def is_digit_def)

lemma decode_args_unsupported:
  assumes "c \<notin> set ''iufsoa?0123456789''"
  shows "decode_args mem ins args i off (pre @ c # post) acc
     = (case decode_args mem ins args i off pre acc of
          Inl e \<Rightarrow> Inl e
        | Inr acc' \<Rightarrow>
            Inl (if c = CHR ''n'' then PanicN else if c = CHR ''h'' then PanicH else PanicRune c))"
proof -
  have head: "decode_args mem ins args j off (c # post) a
          = Inl (if c = CHR ''n'' then PanicN else if c = CHR ''h'' then PanicH else PanicRune c)"
    for j a
    using assms by (simp add: decode_tag_unsupported)
  show ?thesis
  proof (cases "decode_args mem ins args i off pre acc")
    case (Inl e)
    then show ?thesis by (simp add: decode_args_append del: decode_args.simps)
  next
    case (Inr acc')
    then have "decode_args mem ins args i off (pre @ c # post) acc
        = decode_args mem ins args (i + length (arg_tags pre)) off (c # post) acc'"
      by (simp add: decode_args_append del: decode_args.simps)
    also have "\<dots> = Inl (if c = CHR ''n'' then PanicN else if c = CHR ''h'' then PanicH
                          else PanicRune c)"
      by (rule head)
    finally show ?thesis by (simp only: Inr sum.case)
  qed
qed

lemma calls_resolve: "calls (snd (resolve dsp ob mn)) = []"
  by (simp add: resolve_def split: option.splits)

text \<open>
  When the signature cannot be decoded whatever the callable is, the dispatcher calls
  nothing, and it panics as soon as it has resolved a callable that is not \<open>nil\<close>.
\<close>

lemma dispatcher_decode_panics:
  assumes "\<And>ins i off acc. \<exists>e. decode_args mem ins args i off (msg_signature msg) acc = Inl e"
  shows "calls (snd (dispatcher usr mem dsp target msg args)) = []
     \<and> (\<forall>ob mn dsp1 meth recv evs.
           proxies dsp target = Some ob \<and> methName_of (msg_name msg) = Inr mn
           \<and> resolve dsp ob mn = (Inr (dsp1, meth, recv), evs) \<and> \<not> IsNil meth \<longrightarrow>
           (\<exists>e. dispatcher usr mem dsp target msg args = (Inl e, evs)))"
proof (cases "proxies dsp target")
  case None
  then show ?thesis by (simp add: dispatcher_def)
next
  case (Some ob)
  show ?thesis
  proof (cases "methName_of (msg_name msg)")
    case (Inl e)
    with Some show ?thesis by (simp add: dispatcher_def)
  next
    case (Inr mn)
    obtain r evs where res: "resolve dsp ob mn = (r, evs)" by (cases "resolve dsp ob mn")
    have evs: "calls evs = []" using calls_resolve [of dsp ob mn] res by simp
    show ?thesis
    proof (cases r)
      case (Inl e)
      with Some Inr res evs show ?thesis by (simp add: dispatcher_def)
    next
      case (Inr t)
      obtain dsp1 meth recv where t: "t = (dsp1, meth, recv)" by (cases t)
      show ?thesis
      proof (cases "IsNil meth")
        case True
        with Some \<open>methName_of (msg_name msg) = Inr mn\<close> res Inr t evs show ?thesis
          by (simp add: dispatcher_def)
      next
        case False
        obtain e where "decode_args mem (func_in meth) args
              (case recv of None \<Rightarrow> 0 | Some r \<Rightarrow> 1) (case recv of None \<Rightarrow> 0 | Some r \<Rightarrow> - 1)
              (msg_signature msg) (case recv of None \<Rightarrow> [] | Some r \<Rightarrow> [r]) = Inl e"
          using assms by blast
        with Some \<open>methName_of (msg_name msg) = Inr mn\<close> res Inr t evs False show ?thesis
          by (simp add: dispatcher_def)
      qed
    qed
  qed
qed

text \<open>
  C8.  Let \<open>c\<close> be a character of the signature that is \<open>h\<close>, \<open>n\<close> or outside
  the tag alphabet, that is, none of \<open>i u f s o a ?\<close> and no digit.  Then decoding
  ends in a panic; the result does not depend on what follows \<open>c\<close>, so no later tag is
  decoded; when the tags before \<open>c\<close> decode, the panic is the one of \<open>c\<close> itself.
  The dispatcher calls neither a method nor a user callback for such a message, and
  panics whenever the callable it resolved is not \<open>nil\<close>.
\<close>

theorem unsupported_tag_is_fatal:
  assumes "c \<notin> set ''iufsoa?0123456789''"
  shows "(\<exists>e. decode_args mem ins args i off (pre @ c # post) acc = Inl e)
     \<and> decode_args mem ins args i off (pre @ c # post) acc
         = decode_args mem ins args i off (pre @ [c]) acc
     \<and> (\<forall>acc'. decode_args mem ins args i off pre acc = Inr acc' \<longrightarrow>
           decode_args mem ins args i off (pre @ c # post) acc
             = Inl (if c = CHR ''n'' then PanicN else if c = CHR ''h'' then PanicH else PanicRune c))
     \<and> (msg_signature msg = pre @ c # post \<longrightarrow>
           calls (snd (dispatcher usr mem dsp target msg args)) = []
           \<and> (\<forall>ob mn dsp1 meth recv evs.
                 proxies dsp target = Some ob \<and> methName_of (msg_name msg) = Inr mn
                 \<and> resolve dsp ob mn = (Inr (dsp1, meth, recv), evs) \<and> \<not> IsNil meth \<longrightarrow>
                 (\<exists>e. dispatcher usr mem dsp target msg args = (Inl e, evs))))"
proof -
  note eq = decode_args_unsupported [OF assms]
  have fatal: "\<exists>e. decode_args mem ins' args j off' (pre @ c # post) a = Inl e" for ins' j off' a
    by (simp add: eq del: decode_args.simps split: sum.splits)
  have same: "decode_args mem ins args i off (pre @ c # post) acc
                = decode_args mem ins args i off (pre @ [c]) acc"
    by (simp add: eq del: decode_args.simps)
  have at_tag: "\<forall>acc'. decode_args mem ins args i off pre acc = Inr acc' \<longrightarrow>
       decode_args mem ins args i off (pre @ c # post) acc
         = Inl (if c = CHR ''n'' then PanicN else if c = CHR ''h'' then PanicH else PanicRune c)"
    by (simp add: eq del: decode_args.simps)
  have disp: "msg_signature msg = pre @ c # post \<longrightarrow>
           calls (snd (dispatcher usr mem dsp target msg args)) = []
           \<and> (\<forall>ob mn dsp1 meth recv evs.
                 proxies dsp target = Some ob \<and> methName_of (msg_name msg) = Inr mn
                 \<and> resolve dsp ob mn = (Inr (dsp1, meth, recv), evs) \<and> \<not> IsNil meth \<longrightarrow>
                 (\<exists>e. dispatcher usr mem dsp target msg args = (Inl e, evs)))"
  proof
    assume sig: "msg_signature msg = pre @ c # post"
    show "calls (snd (dispatcher usr mem dsp target msg args)) = []
           \<and> (\<forall>ob mn dsp1 meth recv evs.
                 proxies dsp target = Some ob \<and> methName_of (msg_name msg) = Inr mn
                 \<and> resolve dsp ob mn = (Inr (dsp1, meth, recv), evs) \<and> \<not> IsNil meth \<longrightarrow>
                 (\<exists>e. dispatcher usr mem dsp target msg args = (Inl e, evs)))"
      by (rule dispatcher_decode_panics) (simp only: sig fatal)
  qed
  from fatal same at_tag disp show ?thesis by blast
qed

theorem unsupported_tag_is_fatal_witness:
  "CHR ''h'' \<notin> set ''iufsoa?0123456789''
   \<and> decode_args memory_empty [TInt] (args_const 2) 0 0 ''i'' [] = Inr [VInt TInt 2]
   \<and> decode_args memory_empty [TInt] (args_const 2) 0 0 (''i'' @ CHR ''h'' # ''u'') [] = Inl PanicH
   \<and> msg_signature msg_scale_h = ''i'' @ CHR ''h'' # ''u''
   \<and> proxies display_surface 1 = Some surface_1
   \<and> methName_of (msg_name msg_scale_h) = Inr ''Preferred_buffer_scale''
   \<and> resolve display_surface surface_1 ''Preferred_buffer_scale''
       = (Inr (display_surface, FieldFunc [TInt] (Some 7), None),
          [EvFieldByName Surface ''OnPreferred_buffer_scale''])
   \<and> dispatcher usr_quiet memory_empty display_surface 1 msg_scale_h (args_const 2)
       = (Inl PanicH, [EvFieldByName Surface ''OnPreferred_buffer_scale''])"
proof -
  have h: "CHR ''h'' \<notin> set ''iufsoa?0123456789''" by simp
  have pre: "decode_args memory_empty [TInt] (args_const 2) 0 0 ''i'' [] = Inr [VInt TInt 2]"
    by (simp add: decode_tag_def In_type_def Convert_def args_const_def)
  have sig: "msg_signature msg_scale_h = ''i'' @ CHR ''h'' # ''u''" by (simp add: msg_scale_h_def)
  have reg: "proxies display_surface 1 = Some surface_1" by (simp add: display_surface_def)
  have nm: "methName_of (msg_name msg_scale_h) = Inr ''Preferred_buffer_scale''"
    by (simp add: msg_scale_h_def methName_scale)
  have res: "resolve display_surface surface_1 ''Preferred_buffer_scale''
       = (Inr (display_surface, FieldFunc [TInt] (Some 7), None),
          [EvFieldByName Surface ''OnPreferred_buffer_scale''])"
    by (simp add: resolve_def surface_1_def FieldByName_def)
  have d: "dispatcher usr_quiet memory_empty display_surface 1 msg_scale_h (args_const 2)
       = (Inl PanicH, [EvFieldByName Surface ''OnPreferred_buffer_scale''])"
    by (simp add: dispatcher_def reg methName_scale res decode_tag_def In_type_def Convert_def
        args_const_def msg_scale_h_def)
  have v: "(if CHR ''h'' = CHR ''n'' then PanicN
            else if CHR ''h'' = CHR ''h'' then PanicH else PanicRune CHR ''h'') = PanicH"
    by simp
  from unsupported_tag_is_fatal [OF h, of memory_empty "[TInt]" "args_const 2" 0 0 "''i''" "''u''"
      "[]" msg_scale_h usr_quiet display_surface 1] pre
  have "decode_args memory_empty [TInt] (args_const 2) 0 0 (''i'' @ CHR ''h'' # ''u'') []
          = Inl (if CHR ''h'' = CHR ''n'' then PanicN
                 else if CHR ''h'' = CHR ''h'' then PanicH else PanicRune CHR ''h'')"
    by blast
  then have c3: "decode_args memory_empty [TInt] (args_const 2) 0 0 (''i'' @ CHR ''h'' # ''u'') []
          = Inl PanicH"
    by (simp only: v)
  from h pre c3 sig reg nm res d show ?thesis by blast
qed

lemma underlying_slice_Elem: "underlying t = TSlice e \<Longrightarrow> Elem_type t = Inr e"
  by (induction t) auto

lemma assignable_slice: "assignable (TSlice e) t \<longleftrightarrow> underlying t = TSlice e"
  by (cases "underlying t") (auto simp: assignable_def)

text \<open>
  C10.  The tag \<open>a\<close> decodes exactly when the parameter at the current index exists,
  its type has an element type, that element type is \<open>int32\<close> or \<open>uint32\<close>, the
  slot points to a \<open>wl_array\<close> and \<open>unsafe.Slice\<close> accepts pointer and length;
  the value is then a slice of that element type over the array's data whose length is
  the byte size divided by 4, rounded down.  Neither the remainder of that division nor
  \<open>alloc\<close> is looked at.  Every other element type is a panic.  The decoded slice
  passes the type check of the call exactly when the parameter is a slice of
  \<open>int32\<close> or of \<open>uint32\<close>.
\<close>

theorem array_tag_decoding:
  "(decode_tag mem ins slot i CHR ''a'' = Inr r \<longleftrightarrow>
      (\<exists>elem arr. i < length ins \<and> Elem_type (ins ! i) = Inr elem
         \<and> (elem = TInt32 \<or> elem = TUint32)
         \<and> arrays mem slot = Some arr
         \<and> 4 * (unat (arr_size arr) div 4) \<le> unat (- arr_data arr)
         \<and> r = Some (VSlice (TSlice elem) (arr_data arr) (unat (arr_size arr) div 4))))
   \<and> (\<forall>elem. i < length ins \<and> Elem_type (ins ! i) = Inr elem \<and> elem \<noteq> TInt32 \<and> elem \<noteq> TUint32
         \<longrightarrow> decode_tag mem ins slot i CHR ''a'' = Inl (PanicUnsupportedElem elem))
   \<and> (\<forall>v. decode_tag mem ins slot i CHR ''a'' = Inr (Some v) \<longrightarrow>
         (assignable (type_of v) (ins ! i) \<longleftrightarrow>
            underlying (ins ! i) = TSlice TInt32 \<or> underlying (ins ! i) = TSlice TUint32))"
proof (intro conjI)
  show "decode_tag mem ins slot i CHR ''a'' = Inr r \<longleftrightarrow>
      (\<exists>elem arr. i < length ins \<and> Elem_type (ins ! i) = Inr elem
         \<and> (elem = TInt32 \<or> elem = TUint32)
         \<and> arrays mem slot = Some arr
         \<and> 4 * (unat (arr_size arr) div 4) \<le> unat (- arr_data arr)
         \<and> r = Some (VSlice (TSlice elem) (arr_data arr) (unat (arr_size arr) div 4)))"
    by (auto simp: decode_tag_def In_type_def unsafe_Slice_def
        split: sum.splits option.splits if_splits)
  show "\<forall>elem. i < length ins \<and> Elem_type (ins ! i) = Inr elem \<and> elem \<noteq> TInt32 \<and> elem \<noteq> TUint32
         \<longrightarrow> decode_tag mem ins slot i CHR ''a'' = Inl (PanicUnsupportedElem elem)"
    by (simp add: decode_tag_def In_type_def)
  show "\<forall>v. decode_tag mem ins slot i CHR ''a'' = Inr (Some v) \<longrightarrow>
         (assignable (type_of v) (ins ! i) \<longleftrightarrow>
            underlying (ins ! i) = TSlice TInt32 \<or> underlying (ins ! i) = TSlice TUint32)"
    by (auto simp: decode_tag_def In_type_def unsafe_Slice_def assignable_slice
        dest: underlying_slice_Elem split: sum.splits option.splits if_splits)
qed

theorem array_tag_decoding_witness:
  "decode_tag memory_array [TSlice TUint32] 16 0 CHR ''a''
     = Inr (Some (VSlice (TSlice TUint32) 4096 1))
   \<and> Elem_type ([TSlice TUint32] ! 0) = Inr TUint32
   \<and> arrays memory_array 16 = Some \<lparr>arr_size = 7, arr_alloc = 8, arr_data = 4096\<rparr>
   \<and> assignable (TSlice TUint32) ([TSlice TUint32] ! 0)
   \<and> Elem_type ([TSlice TString] ! 0) = Inr TString
   \<and> decode_tag memory_array [TSlice TString] 16 0 CHR ''a'' = Inl (PanicUnsupportedElem TString)"
  using array_tag_decoding
      [of memory_array "[TSlice TUint32]" 16 0 "Some (VSlice (TSlice TUint32) 4096 1)"]
    array_tag_decoding [of memory_array "[TSlice TString]" 16 0 None]
  by (simp add: memory_array_def assignable_def)

subsection \<open>Resolution\<close>

text \<open>
  C3, as the claim states it, fails for an object without internal representation: the
  display after the first resolution is the display before it, and the second
  resolution looks the field up again.
\<close>

theorem resolve_twice_counterexample:
  "lookups (snd (resolve (fst (projr (fst (resolve display_surface surface_1
                                             ''Preferred_buffer_scale''))))
                   surface_1 ''Preferred_buffer_scale''))
     = [EvFieldByName Surface ''OnPreferred_buffer_scale'']"
  by (simp add: resolve_def surface_1_def FieldByName_def)

text \<open>
  C3, amended.  After a resolution that succeeds, a second resolution of the same name
  gives the same callable and receiver.  For an object with an internal representation
  the second one is served from \<open>methods\<close> without any lookup, for every object of that
  type, and the first one made at most one lookup.  For an object without one, every
  resolution calls \<open>FieldByName\<close>.
\<close>

theorem resolve_memoized:
  assumes "resolve dsp ob nm = (Inr (dsp1, meth, recv), evs)"
  shows "(internal_type (otyp ob) \<noteq> None \<longrightarrow>
            resolve dsp1 ob nm = (Inr (dsp1, meth, recv), []) \<and> length evs \<le> 1
            \<and> (\<forall>ob'. otyp ob' = otyp ob \<longrightarrow>
                  (\<exists>recv'. resolve dsp1 ob' nm = (Inr (dsp1, meth, recv'), []))))
         \<and> (internal_type (otyp ob) = None \<longrightarrow>
            resolve dsp1 ob nm = (Inr (dsp1, meth, recv), [EvFieldByName (otyp ob) (''On'' @ nm)])
            \<and> evs = [EvFieldByName (otyp ob) (''On'' @ nm)])"
  using assms
  by (auto simp: resolve_def split: option.splits)

theorem resolve_memoized_witness:
  "resolve display_feedback feedback_5 ''Presented''
     = (Inr (display_feedback_cached, MethodFunc presented_method,
             Some (VRecv wpPresentationFeedback_ptr feedback_5)),
        [EvMethodByName wpPresentationFeedback_ptr ''Presented''])
   \<and> internal_type (otyp feedback_5) \<noteq> None
   \<and> resolve display_feedback_cached feedback_5 ''Presented''
     = (Inr (display_feedback_cached, MethodFunc presented_method,
             Some (VRecv wpPresentationFeedback_ptr feedback_5)), [])
   \<and> resolve display_surface surface_1 ''Preferred_buffer_scale''
     = (Inr (display_surface, FieldFunc [TInt] (Some 7), None),
        [EvFieldByName Surface ''OnPreferred_buffer_scale''])
   \<and> internal_type (otyp surface_1) = None"
proof -
  have r1: "resolve display_feedback feedback_5 ''Presented''
     = (Inr (display_feedback_cached, MethodFunc presented_method,
             Some (VRecv wpPresentationFeedback_ptr feedback_5)),
        [EvMethodByName wpPresentationFeedback_ptr ''Presented''])"
    by (simp add: resolve_def display_feedback_def display_feedback_cached_def feedback_5_def
        MethodByName_def method_set_def presented_method_def callback_ptr_def
        wpPresentationFeedback_ptr_def)
  have r2: "resolve display_surface surface_1 ''Preferred_buffer_scale''
     = (Inr (display_surface, FieldFunc [TInt] (Some 7), None),
        [EvFieldByName Surface ''OnPreferred_buffer_scale''])"
    by (simp add: resolve_def surface_1_def FieldByName_def)
  have t1: "internal_type (otyp feedback_5) \<noteq> None" by (simp add: feedback_5_def)
  have t2: "internal_type (otyp surface_1) = None" by (simp add: surface_1_def)
  from resolve_memoized [OF r1] resolve_memoized [OF r2] r1 r2 t1 t2 show ?thesis
    by simp
qed

subsection \<open>Dispatch to a callback field\<close>

text \<open>
  C2, as the claim states it, fails: the dispatcher puts only the first byte of the
  event name in upper case, so the field it looks up is \<open>OnPreferred_buffer_scale\<close>,
  and \<open>Surface\<close> has no field \<open>OnPreferredBufferScale\<close>.
\<close>

theorem surface_scale_counterexample:
  "snd (dispatcher usr_quiet memory_empty display_surface 1 msg_scale (args_const 2))
     = [EvFieldByName Surface ''OnPreferred_buffer_scale'', EvCallUser 7 [VInt TInt 2]]
   \<and> FieldByName Surface ''OnPreferredBufferScale'' = None
   \<and> EvFieldByName Surface ''OnPreferredBufferScale''
        \<notin> set (snd (dispatcher usr_quiet memory_empty display_surface 1 msg_scale (args_const 2)))"
  by (simp add: dispatcher_def display_surface_def surface_1_def msg_scale_def methName_scale
      resolve_def FieldByName_def decode_tag_def In_type_def Convert_def Call_def call_check_def
      assignable_def args_const_def usr_quiet_def)

text \<open>
  C2, amended.  For a registered \<open>Surface\<close> whose field \<open>OnPreferred_buffer_scale\<close>
  holds a closure, the event \<open>preferred_buffer_scale\<close> with signature \<open>i\<close> and the
  32-bit value 2 in the first slot looks up that field and calls the closure with the
  single argument 2 of type \<open>int\<close>; the dispatcher returns unless the closure panics.
\<close>

theorem surface_scale_dispatch:
  assumes "proxies dsp target = Some ob" and "otyp ob = Surface"
    and "slots ob ''OnPreferred_buffer_scale'' = Some c"
    and "msg_name msg = ''preferred_buffer_scale''" and "msg_signature msg = ''i''"
    and "ucast (args 0) = (2 :: 32 word)"
  shows "snd (dispatcher usr mem dsp target msg args)
           = [EvFieldByName Surface ''OnPreferred_buffer_scale'', EvCallUser c [VInt TInt 2]]
         \<and> fst (dispatcher usr mem dsp target msg args)
           = (case usr c [VInt TInt 2] (proxies dsp) of
                None \<Rightarrow> Inl PanicUser
              | Some ps \<Rightarrow> Inr (dsp\<lparr>proxies := ps\<rparr>))"
  using assms
  by (simp add: dispatcher_def methName_scale resolve_def FieldByName_def decode_tag_def
      In_type_def Convert_def Call_def call_check_def assignable_def split: option.splits)

theorem surface_scale_dispatch_witness:
  "proxies display_surface 1 = Some surface_1 \<and> otyp surface_1 = Surface
   \<and> slots surface_1 ''OnPreferred_buffer_scale'' = Some 7
   \<and> msg_name msg_scale = ''preferred_buffer_scale'' \<and> msg_signature msg_scale = ''i''
   \<and> ucast (args_const 2 0) = (2 :: 32 word)
   \<and> snd (dispatcher usr_quiet memory_empty display_surface 1 msg_scale (args_const 2))
           = [EvFieldByName Surface ''OnPreferred_buffer_scale'', EvCallUser 7 [VInt TInt 2]]
   \<and> fst (dispatcher usr_quiet memory_empty display_surface 1 msg_scale (args_const 2))
           = Inr display_surface"
proof -
  have h1: "proxies display_surface 1 = Some surface_1" by (simp add: display_surface_def)
  have h2: "otyp surface_1 = Surface" by (simp add: surface_1_def)
  have h3: "slots surface_1 ''OnPreferred_buffer_scale'' = Some 7" by (simp add: surface_1_def)
  have h4: "msg_name msg_scale = ''preferred_buffer_scale''" by (simp add: msg_scale_def)
  have h5: "msg_signature msg_scale = ''i''" by (simp add: msg_scale_def)
  have h6: "ucast (args_const 2 0) = (2 :: 32 word)" by (simp add: args_const_def)
  show ?thesis
    using surface_scale_dispatch [where dsp = display_surface and target = 1 and ob = surface_1
        and c = 7 and msg = msg_scale and args = "args_const 2" and usr = usr_quiet
        and mem = memory_empty] h1 h2 h3 h4 h5 h6
    by (simp add: usr_quiet_def)
qed

text \<open>
  A callback field that is \<open>nil\<close>: the dispatcher returns after the lookup, with the
  display as it was and without a call.
\<close>

lemma field_nil_slot_silent:
  assumes "proxies dsp target = Some ob" and "internal_type (otyp ob) = None"
    and "methName_of (msg_name msg) = Inr mn"
    and "FieldByName (otyp ob) (''On'' @ mn) = Some ins"
    and "slots ob (''On'' @ mn) = None"
  shows "dispatcher usr mem dsp target msg args
           = (Inr dsp, [EvFieldByName (otyp ob) (''On'' @ mn)])"
  using assms by (simp add: dispatcher_def resolve_def)

text \<open>
  C1.  With an internal representation the resolved callable is the method, which is
  never \<open>nil\<close>, and the method calls the callback field without looking whether it is
  set.  For the \<open>WpPresentationFeedback\<close> whose \<open>OnDiscarded\<close> is \<open>nil\<close> the event
  \<open>discarded\<close> ends in the panic of a call through a \<open>nil\<close> func, whatever the user
  callbacks, the memory and the argument buffer are.
\<close>

theorem delegated_nil_slot_panics:
  "dispatcher usr mem display_feedback 5 msg_discarded args
     = (Inl PanicNilFunc,
        [EvMethodByName wpPresentationFeedback_ptr ''Discarded'',
         EvCallMethod ''Discarded'' [VRecv wpPresentationFeedback_ptr feedback_5]])"
  by (simp add: dispatcher_def display_feedback_def msg_discarded_def methName_of_def
      toUpper_byte_d resolve_def feedback_5_def MethodByName_def method_set_def callback_ptr_def
      wpPresentationFeedback_ptr_def Call_def call_check_def assignable_def method_body_def
      call_field_def then_forget_def)

text \<open>
  What stands between decoding and the callable is the check of \<open>Value.Call\<close>: when
  it fails, the dispatcher panics and nothing is called.
\<close>

lemma Call_check_fails:
  "\<not> IsNil meth \<Longrightarrow> call_check (func_in meth) callArgs = Some e \<Longrightarrow>
   Call usr meth callArgs ps = (Inl e, [])"
  by (simp add: Call_def)

text \<open>
  C5.  The dispatcher has no check of its own between decoding and the call.  For the
  \<open>Registry\<close> whose \<open>OnGlobal\<close> takes \<open>(uint32, string, uint32)\<close>, the event
  \<open>global\<close> with the signature \<open>uuu\<close> converts the second integer, 65, to the string
  \<open>A\<close> and calls the closure with it; the dispatcher returns.
\<close>

theorem mismatched_signature_is_invoked:
  "dispatcher usr_quiet mem display_registry 9 msg_global_uuu args_global
     = (Inr display_registry,
        [EvFieldByName Registry ''OnGlobal'',
         EvCallUser 4 [VInt TUint32 1, VStr TString ''A'', VInt TUint32 3]])"
  by (simp add: dispatcher_def display_registry_def msg_global_uuu_def methName_of_def
      toUpper_byte_g resolve_def registry_9_def FieldByName_def decode_tag_def In_type_def
      Convert_def rune_string_def char_of_def bit_iff_odd Call_def call_check_def assignable_def
      args_global_def usr_quiet_def)

subsection \<open>The registry and the cache\<close>

lemma cache_sound_resolve:
  "cache_sound dsp \<Longrightarrow> resolve dsp ob mn = (Inr (dsp1, meth, recv), evs) \<Longrightarrow> cache_sound dsp1"
  by (auto simp: resolve_def cache_sound_def split: option.splits if_splits)

lemma dispatcher_methods:
  assumes "dispatcher usr mem dsp target msg args = (Inr dsp', evs)"
  shows "\<exists>ob mn dsp1 meth recv evs0.
           resolve dsp ob mn = (Inr (dsp1, meth, recv), evs0) \<and> methods dsp' = methods dsp1"
proof (cases "proxies dsp target")
  case None
  with assms show ?thesis by (simp add: dispatcher_def)
next
  case (Some ob)
  show ?thesis
  proof (cases "methName_of (msg_name msg)")
    case (Inl e)
    with Some assms show ?thesis by (simp add: dispatcher_def)
  next
    case (Inr mn)
    obtain r evs0 where res: "resolve dsp ob mn = (r, evs0)" by (cases "resolve dsp ob mn")
    show ?thesis
    proof (cases r)
      case (Inl e)
      with Some Inr res assms show ?thesis by (simp add: dispatcher_def)
    next
      case (Inr t)
      obtain dsp1 meth recv where t: "t = (dsp1, meth, recv)" by (cases t)
      from Some \<open>methName_of (msg_name msg) = Inr mn\<close> res Inr t assms
      have "methods dsp' = methods dsp1"
        by (auto simp: dispatcher_def split: sum.splits prod.splits if_splits)
      with res Inr t show ?thesis by blast
    qed
  qed
qed

lemma cache_sound_dispatcher:
  assumes "cache_sound dsp" and "dispatcher usr mem dsp target msg args = (Inr dsp', evs)"
  shows "cache_sound dsp'"
proof -
  from dispatcher_methods [OF assms(2)] obtain ob mn dsp1 meth recv evs0 where
    r: "resolve dsp ob mn = (Inr (dsp1, meth, recv), evs0)" and m: "methods dsp' = methods dsp1"
    by blast
  from cache_sound_resolve [OF assms(1) r] m show ?thesis by (simp add: cache_sound_def)
qed

lemma lookup_add: "proxies (add dsp h ob) h = Some ob"
  by (simp add: add_def)

lemma lookup_forget: "forget ps h h = None"
  by (simp add: forget_def)

subsection \<open>Delegated dispatch\<close>

text \<open>
  The arguments that a signature decodes to come in the order of its argument tags, one
  per tag: argument \<open>k\<close> is what tag \<open>k\<close> decodes at slot and parameter \<open>k\<close>
  counted from the start of the loop.
\<close>

lemma decode_args_acc:
  "decode_args mem ins args i off sig (pre @ acc)
     = map_sum id ((@) pre) (decode_args mem ins args i off sig acc)"
proof (induction sig arbitrary: i acc)
  case Nil
  show ?case by simp
next
  case (Cons c sig)
  show ?case
    using Cons [of i acc] Cons [of "i + 1" "acc @ [v]" for v]
    by (simp split: sum.splits option.splits)
qed

lemma decode_args_nth:
  "decode_args mem ins args i off sig [] = Inr ds \<Longrightarrow>
   length ds = length (arg_tags sig) \<and>
   (\<forall>k<length ds. decode_tag mem ins (args (int (i + k) + off)) (i + k) (arg_tags sig ! k)
                     = Inr (Some (ds ! k)))"
proof (induction sig arbitrary: i ds)
  case Nil
  then show ?case by (simp add: arg_tags_def)
next
  case (Cons c sig)
  show ?case
  proof (cases "decode_tag mem ins (args (int i + off)) i c")
    case (Inl e)
    with Cons.prems show ?thesis by simp
  next
    case (Inr r)
    show ?thesis
    proof (cases r)
      case None
      with Inr have sk: "skipped c"
        using decode_tag_None_iff [of mem ins "args (int i + off)" i c] by simp
      from Cons.prems Inr None have "decode_args mem ins args i off sig [] = Inr ds" by simp
      from Cons.IH [OF this] sk show ?thesis by (simp add: arg_tags_def)
    next
      case (Some v)
      with Inr have sk: "\<not> skipped c"
        using decode_tag_None_iff [of mem ins "args (int i + off)" i c] by simp
      from Cons.prems Inr Some
      have "decode_args mem ins args (i + 1) off sig ([v] @ []) = Inr ds" by simp
      then obtain ds' where ds': "decode_args mem ins args (i + 1) off sig [] = Inr ds'"
        and ds: "ds = v # ds'"
        by (simp only: decode_args_acc) (cases "decode_args mem ins args (i + 1) off sig []", auto)
      have tags: "arg_tags (c # sig) = c # arg_tags sig" using sk by (simp add: arg_tags_def)
      from Cons.IH [OF ds']
      have len: "length ds' = length (arg_tags sig)"
        and nth: "\<And>k. k < length ds' \<Longrightarrow>
                   decode_tag mem ins (args (int (i + 1 + k) + off)) (i + 1 + k) (arg_tags sig ! k)
                     = Inr (Some (ds' ! k))"
        by simp_all
      show ?thesis
      proof (intro conjI allI impI)
        show "length ds = length (arg_tags (c # sig))" using ds len tags by simp
      next
        fix k assume k: "k < length ds"
        show "decode_tag mem ins (args (int (i + k) + off)) (i + k) (arg_tags (c # sig) ! k)
                = Inr (Some (ds ! k))"
        proof (cases k)
          case 0
          then show ?thesis using Inr Some ds tags by simp
        next
          case (Suc k')
          with k ds have "k' < length ds'" by simp
          from nth [OF this] show ?thesis using Suc ds tags by (simp add: add.commute add.left_commute)
        qed
      qed
    qed
  qed
qed

lemma u32_mod: "uint (w :: 32 word) mod 4294967296 = uint w"
  using uint_lt2p [of w] uint_ge_0 [of w] by simp

lemma decode_u: "i < length ins \<Longrightarrow> ins ! i = TUint32 \<Longrightarrow>
   decode_tag mem ins slot i CHR ''u'' = Inr (Some (uint32_of_slot slot))"
  by (simp add: decode_tag_def In_type_def Convert_def uint32_of_slot_def u32_mod)

lemma resolve_delegated:
  assumes "internal_type (otyp ob) = Some typ"
    and "resolve dsp ob mn = (Inr (dsp1, meth, recv), evs)"
  shows "recv = Some (VRecv typ ob) \<and> proxies dsp1 = proxies dsp \<and> calls evs = []
     \<and> (\<exists>m. meth = MethodFunc m
            \<and> (methods dsp (typ, mn) = Some m \<or> MethodByName typ mn = Some m))"
  using assms by (auto simp: resolve_def split: option.splits)

lemma method_body_events:
  "method_body usr typ nm ob vs' ps = (r, evs) \<Longrightarrow> EvCallMethod n vs \<notin> set evs"
  by (auto simp: method_body_def then_forget_def call_field_def split: option.splits if_splits)

lemma Call_method_event:
  "EvCallMethod n vs \<in> set (snd (Call usr meth callArgs ps)) \<Longrightarrow> vs = callArgs"
  by (auto simp: Call_def dest: method_body_events
      split: option.splits callable.splits list.splits goval.splits prod.splits if_splits)

lemma calls_Nil_no_method: "calls evs = [] \<Longrightarrow> EvCallMethod n vs \<notin> set evs"
  by (induction evs rule: calls.induct) auto

lemma dispatcher_delegated:
  assumes reg: "proxies dsp target = Some ob" and int: "internal_type (otyp ob) = Some typ"
    and nm: "methName_of (msg_name msg) = Inr mn"
    and res: "resolve dsp ob mn = (Inr (dsp1, meth, recv), evs)"
  shows "dispatcher usr mem dsp target msg args
     = (case decode_args mem (func_in meth) args 1 (- 1) (msg_signature msg) [] of
          Inl e \<Rightarrow> (Inl e, evs)
        | Inr ds \<Rightarrow>
            (case Call usr meth (VRecv typ ob # ds) (proxies dsp) of
               (Inl e, evs') \<Rightarrow> (Inl e, evs @ evs')
             | (Inr ps, evs') \<Rightarrow> (Inr (dsp1\<lparr>proxies := ps\<rparr>), evs @ evs')))"
proof -
  from resolve_delegated [OF int res] obtain m where
    recv: "recv = Some (VRecv typ ob)" and px: "proxies dsp1 = proxies dsp"
    and m: "meth = MethodFunc m"
    by blast
  have fi: "func_in meth = meth_in m" by (simp add: m)
  have acc: "decode_args mem (meth_in m) args 1 (- 1) (msg_signature msg) [VRecv typ ob]
      = map_sum id ((@) [VRecv typ ob])
          (decode_args mem (meth_in m) args 1 (- 1) (msg_signature msg) [])"
    using decode_args_acc [of mem "meth_in m" args 1 "- 1" "msg_signature msg"
        "[VRecv typ ob]" "[]"] by (simp del: One_nat_def)
  have d: "dispatcher usr mem dsp target msg args
     = (case decode_args mem (meth_in m) args 1 (- 1) (msg_signature msg) [VRecv typ ob] of
          Inl e \<Rightarrow> (Inl e, evs)
        | Inr callArgs \<Rightarrow>
            (case Call usr (MethodFunc m) callArgs (proxies dsp1) of
               (Inl e, evs') \<Rightarrow> (Inl e, evs @ evs')
             | (Inr ps, evs') \<Rightarrow> (Inr (dsp1\<lparr>proxies := ps\<rparr>), evs @ evs')))"
    by (simp add: dispatcher_def reg nm res recv m del: One_nat_def)
  show ?thesis
    unfolding m func_in.simps d px acc
    by (cases "decode_args mem (meth_in m) args 1 (- 1) (msg_signature msg) []") simp_all
qed


lemma decode_presented_args:
  "decode_args mem (meth_in presented_method) args 1 (- 1) ''uuuuuuu'' []
     = Inr [uint32_of_slot (args 0), uint32_of_slot (args 1), uint32_of_slot (args 2),
            uint32_of_slot (args 3), uint32_of_slot (args 4), uint32_of_slot (args 5),
            uint32_of_slot (args 6)]"
  by (simp add: presented_method_def decode_u)

lemma Call_Presented:
  assumes "slots ob ''OnPresented'' = Some c"
    and "usr c [uint32_of_slot a0, uint32_of_slot a1, uint32_of_slot a2, uint32_of_slot a3,
               uint32_of_slot a4, uint32_of_slot a5, uint32_of_slot a6] ps0 = Some ps"
  shows "Call usr (MethodFunc presented_method)
           (VRecv wpPresentationFeedback_ptr ob #
              [uint32_of_slot a0, uint32_of_slot a1, uint32_of_slot a2, uint32_of_slot a3,
               uint32_of_slot a4, uint32_of_slot a5, uint32_of_slot a6]) ps0
     = (Inr (forget ps (hnd ob)),
        [EvCallMethod ''Presented''
           (VRecv wpPresentationFeedback_ptr ob #
              [uint32_of_slot a0, uint32_of_slot a1, uint32_of_slot a2, uint32_of_slot a3,
               uint32_of_slot a4, uint32_of_slot a5, uint32_of_slot a6]),
         EvCallUser c
           [uint32_of_slot a0, uint32_of_slot a1, uint32_of_slot a2, uint32_of_slot a3,
            uint32_of_slot a4, uint32_of_slot a5, uint32_of_slot a6]])"
  using assms
  by (simp add: Call_def call_check_def presented_method_def uint32_of_slot_def assignable_def
      method_body_def then_forget_def call_field_def callback_ptr_def
      wpPresentationFeedback_ptr_def)

text \<open>
  C9.  For an object with an internal representation the receiver is that
  representation, and every method call the dispatcher makes has the receiver as its
  first argument, followed by the arguments decoded from the signature: one per
  argument tag, in the order of the tags, argument \<open>k\<close> read from slot \<open>k\<close> for
  parameter \<open>k + 1\<close>.  In particular, for a \<open>WpPresentationFeedback\<close> whose
  \<open>OnPresented\<close> is set and returns, the event \<open>presented\<close> with signature
  \<open>uuuuuuu\<close> calls the method \<open>Presented\<close> with the receiver and the seven
  \<open>uint32\<close> values of slots 0 to 6, which passes the seven values on to
  \<open>OnPresented\<close>, and afterwards the handle of the object is not in the registry.
\<close>

theorem delegated_receiver_first:
  assumes reg: "proxies dsp target = Some ob" and int: "internal_type (otyp ob) = Some typ"
    and nm: "methName_of (msg_name msg) = Inr mn"
    and res: "resolve dsp ob mn = (Inr (dsp1, meth, recv), evs)"
  shows "recv = Some (VRecv typ ob)
    \<and> (\<forall>n vs. EvCallMethod n vs \<in> set (snd (dispatcher usr mem dsp target msg args)) \<longrightarrow>
         (\<exists>ds. vs = VRecv typ ob # ds
            \<and> decode_args mem (func_in meth) args 1 (- 1) (msg_signature msg) [] = Inr ds
            \<and> length ds = length (arg_tags (msg_signature msg))
            \<and> (\<forall>k<length ds.
                  decode_tag mem (func_in meth) (args (int k)) (k + 1)
                    (arg_tags (msg_signature msg) ! k) = Inr (Some (ds ! k)))))
    \<and> (otyp ob = WpPresentationFeedback \<and> cache_sound dsp
        \<and> msg_name msg = ''presented'' \<and> msg_signature msg = ''uuuuuuu''
        \<and> slots ob ''OnPresented'' = Some c
        \<and> usr c [uint32_of_slot (args 0), uint32_of_slot (args 1), uint32_of_slot (args 2),
                  uint32_of_slot (args 3), uint32_of_slot (args 4), uint32_of_slot (args 5),
                  uint32_of_slot (args 6)] (proxies dsp) = Some ps
        \<longrightarrow>
          dispatcher usr mem dsp target msg args
            = (Inr (dsp1\<lparr>proxies := forget ps (hnd ob)\<rparr>),
               evs @ [EvCallMethod ''Presented''
                        [VRecv typ ob,
                         uint32_of_slot (args 0), uint32_of_slot (args 1), uint32_of_slot (args 2),
                         uint32_of_slot (args 3), uint32_of_slot (args 4), uint32_of_slot (args 5),
                         uint32_of_slot (args 6)],
                      EvCallUser c
                        [uint32_of_slot (args 0), uint32_of_slot (args 1), uint32_of_slot (args 2),
                         uint32_of_slot (args 3), uint32_of_slot (args 4), uint32_of_slot (args 5),
                         uint32_of_slot (args 6)]])
          \<and> proxies (dsp1\<lparr>proxies := forget ps (hnd ob)\<rparr>) (hnd ob) = None)"
proof (intro conjI)
  note rd = resolve_delegated [OF int res]
  note disp = dispatcher_delegated [OF reg int nm res, of usr mem args]
  show "recv = Some (VRecv typ ob)" using rd by blast
  show "\<forall>n vs. EvCallMethod n vs \<in> set (snd (dispatcher usr mem dsp target msg args)) \<longrightarrow>
         (\<exists>ds. vs = VRecv typ ob # ds
            \<and> decode_args mem (func_in meth) args 1 (- 1) (msg_signature msg) [] = Inr ds
            \<and> length ds = length (arg_tags (msg_signature msg))
            \<and> (\<forall>k<length ds.
                  decode_tag mem (func_in meth) (args (int k)) (k + 1)
                    (arg_tags (msg_signature msg) ! k) = Inr (Some (ds ! k))))"
  proof (intro allI impI)
    fix n vs
    assume ev: "EvCallMethod n vs \<in> set (snd (dispatcher usr mem dsp target msg args))"
    have noev: "EvCallMethod n vs \<notin> set evs" using rd calls_Nil_no_method by blast
    show "\<exists>ds. vs = VRecv typ ob # ds
            \<and> decode_args mem (func_in meth) args 1 (- 1) (msg_signature msg) [] = Inr ds
            \<and> length ds = length (arg_tags (msg_signature msg))
            \<and> (\<forall>k<length ds.
                  decode_tag mem (func_in meth) (args (int k)) (k + 1)
                    (arg_tags (msg_signature msg) ! k) = Inr (Some (ds ! k)))"
    proof (cases "decode_args mem (func_in meth) args 1 (- 1) (msg_signature msg) []")
      case (Inl e)
      with disp have "snd (dispatcher usr mem dsp target msg args) = evs" by simp
      with ev noev show ?thesis by simp
    next
      case (Inr ds)
      with disp have "snd (dispatcher usr mem dsp target msg args)
          = evs @ snd (Call usr meth (VRecv typ ob # ds) (proxies dsp))"
        by (simp split: prod.splits sum.splits)
      with ev noev have "EvCallMethod n vs \<in> set (snd (Call usr meth (VRecv typ ob # ds) (proxies dsp)))"
        by simp
      then have vs: "vs = VRecv typ ob # ds" by (rule Call_method_event)
      from decode_args_nth [OF Inr]
      have len: "length ds = length (arg_tags (msg_signature msg))"
        and nth: "\<And>k. k < length ds \<Longrightarrow>
           decode_tag mem (func_in meth) (args (int (1 + k) + - 1)) (1 + k)
             (arg_tags (msg_signature msg) ! k) = Inr (Some (ds ! k))"
        by simp_all
      have "\<forall>k<length ds.
              decode_tag mem (func_in meth) (args (int k)) (k + 1)
                (arg_tags (msg_signature msg) ! k) = Inr (Some (ds ! k))"
        using nth by (simp add: add.commute)
      with vs Inr len show ?thesis by blast
    qed
  qed
  show "otyp ob = WpPresentationFeedback \<and> cache_sound dsp
        \<and> msg_name msg = ''presented'' \<and> msg_signature msg = ''uuuuuuu''
        \<and> slots ob ''OnPresented'' = Some c
        \<and> usr c [uint32_of_slot (args 0), uint32_of_slot (args 1), uint32_of_slot (args 2),
                  uint32_of_slot (args 3), uint32_of_slot (args 4), uint32_of_slot (args 5),
                  uint32_of_slot (args 6)] (proxies dsp) = Some ps
        \<longrightarrow>
          dispatcher usr mem dsp target msg args
            = (Inr (dsp1\<lparr>proxies := forget ps (hnd ob)\<rparr>),
               evs @ [EvCallMethod ''Presented''
                        [VRecv typ ob,
                         uint32_of_slot (args 0), uint32_of_slot (args 1), uint32_of_slot (args 2),
                         uint32_of_slot (args 3), uint32_of_slot (args 4), uint32_of_slot (args 5),
                         uint32_of_slot (args 6)],
                      EvCallUser c
                        [uint32_of_slot (args 0), uint32_of_slot (args 1), uint32_of_slot (args 2),
                         uint32_of_slot (args 3), uint32_of_slot (args 4), uint32_of_slot (args 5),
                         uint32_of_slot (args 6)]])
          \<and> proxies (dsp1\<lparr>proxies := forget ps (hnd ob)\<rparr>) (hnd ob) = None"
  proof (intro impI, elim conjE)
    assume ty: "otyp ob = WpPresentationFeedback" and cs: "cache_sound dsp"
      and name: "msg_name msg = ''presented''" and sig: "msg_signature msg = ''uuuuuuu''"
      and slot: "slots ob ''OnPresented'' = Some c"
      and u: "usr c [uint32_of_slot (args 0), uint32_of_slot (args 1), uint32_of_slot (args 2),
                  uint32_of_slot (args 3), uint32_of_slot (args 4), uint32_of_slot (args 5),
                  uint32_of_slot (args 6)] (proxies dsp) = Some ps"
    from int ty have tyeq: "typ = wpPresentationFeedback_ptr" by simp
    from nm name have mn: "mn = ''Presented''" by (simp add: methName_presented)
    from rd obtain m where m: "meth = MethodFunc m"
      and src: "methods dsp (typ, mn) = Some m \<or> MethodByName typ mn = Some m"
      by blast
    from src cs have "MethodByName typ mn = Some m" by (auto simp: cache_sound_def)
    with tyeq mn have pm: "m = presented_method" by (simp add: MethodByName_Presented)
    have dec: "decode_args mem (func_in meth) args 1 (- 1) (msg_signature msg) []
       = Inr [uint32_of_slot (args 0), uint32_of_slot (args 1), uint32_of_slot (args 2),
              uint32_of_slot (args 3), uint32_of_slot (args 4), uint32_of_slot (args 5),
              uint32_of_slot (args 6)]"
      unfolding m pm sig func_in.simps by (rule decode_presented_args)
    have call: "Call usr meth
         (VRecv typ ob # [uint32_of_slot (args 0), uint32_of_slot (args 1), uint32_of_slot (args 2),
              uint32_of_slot (args 3), uint32_of_slot (args 4), uint32_of_slot (args 5),
              uint32_of_slot (args 6)]) (proxies dsp)
       = (Inr (forget ps (hnd ob)),
          [EvCallMethod ''Presented''
             (VRecv typ ob # [uint32_of_slot (args 0), uint32_of_slot (args 1),
                uint32_of_slot (args 2), uint32_of_slot (args 3), uint32_of_slot (args 4),
                uint32_of_slot (args 5), uint32_of_slot (args 6)]),
           EvCallUser c [uint32_of_slot (args 0), uint32_of_slot (args 1), uint32_of_slot (args 2),
              uint32_of_slot (args 3), uint32_of_slot (args 4), uint32_of_slot (args 5),
              uint32_of_slot (args 6)]])"
      unfolding m pm tyeq by (rule Call_Presented [where usr = usr and ?ps0.0 = "proxies dsp", OF slot u])
    show "dispatcher usr mem dsp target msg args
            = (Inr (dsp1\<lparr>proxies := forget ps (hnd ob)\<rparr>),
               evs @ [EvCallMethod ''Presented''
                        [VRecv typ ob,
                         uint32_of_slot (args 0), uint32_of_slot (args 1), uint32_of_slot (args 2),
                         uint32_of_slot (args 3), uint32_of_slot (args 4), uint32_of_slot (args 5),
                         uint32_of_slot (args 6)],
                      EvCallUser c
                        [uint32_of_slot (args 0), uint32_of_slot (args 1), uint32_of_slot (args 2),
                         uint32_of_slot (args 3), uint32_of_slot (args 4), uint32_of_slot (args 5),
                         uint32_of_slot (args 6)]])
          \<and> proxies (dsp1\<lparr>proxies := forget ps (hnd ob)\<rparr>) (hnd ob) = None"
      unfolding disp dec by (simp add: call forget_def)
  qed
qed


theorem delegated_receiver_first_witness:
  "proxies display_feedback 5 = Some feedback_5
   \<and> internal_type (otyp feedback_5) = Some wpPresentationFeedback_ptr
   \<and> methName_of (msg_name msg_presented) = Inr ''Presented''
   \<and> resolve display_feedback feedback_5 ''Presented''
       = (Inr (display_feedback_cached, MethodFunc presented_method,
               Some (VRecv wpPresentationFeedback_ptr feedback_5)),
          [EvMethodByName wpPresentationFeedback_ptr ''Presented''])
   \<and> otyp feedback_5 = WpPresentationFeedback \<and> cache_sound display_feedback
   \<and> msg_name msg_presented = ''presented'' \<and> msg_signature msg_presented = ''uuuuuuu''
   \<and> slots feedback_5 ''OnPresented'' = Some 3
   \<and> dispatcher usr_quiet memory_empty display_feedback 5 msg_presented (args_const 10)
       = (Inr (display_feedback_cached\<lparr>proxies := forget (proxies display_feedback) 5\<rparr>),
          [EvMethodByName wpPresentationFeedback_ptr ''Presented'',
           EvCallMethod ''Presented''
             [VRecv wpPresentationFeedback_ptr feedback_5,
              VInt TUint32 10, VInt TUint32 10, VInt TUint32 10, VInt TUint32 10,
              VInt TUint32 10, VInt TUint32 10, VInt TUint32 10],
           EvCallUser 3
             [VInt TUint32 10, VInt TUint32 10, VInt TUint32 10, VInt TUint32 10,
              VInt TUint32 10, VInt TUint32 10, VInt TUint32 10]])
   \<and> proxies (display_feedback_cached\<lparr>proxies := forget (proxies display_feedback) 5\<rparr>) 5 = None"
proof -
  have reg: "proxies display_feedback 5 = Some feedback_5" by (simp add: display_feedback_def)
  have int: "internal_type (otyp feedback_5) = Some wpPresentationFeedback_ptr"
    by (simp add: feedback_5_def)
  have nm: "methName_of (msg_name msg_presented) = Inr ''Presented''"
    by (simp add: msg_presented_def methName_presented)
  have res: "resolve display_feedback feedback_5 ''Presented''
       = (Inr (display_feedback_cached, MethodFunc presented_method,
               Some (VRecv wpPresentationFeedback_ptr feedback_5)),
          [EvMethodByName wpPresentationFeedback_ptr ''Presented''])"
    by (simp add: resolve_def display_feedback_def display_feedback_cached_def feedback_5_def
        MethodByName_Presented)
  have ty: "otyp feedback_5 = WpPresentationFeedback" by (simp add: feedback_5_def)
  have cs: "cache_sound display_feedback" by (simp add: cache_sound_def display_feedback_def)
  have name: "msg_name msg_presented = ''presented''" by (simp add: msg_presented_def)
  have sig: "msg_signature msg_presented = ''uuuuuuu''" by (simp add: msg_presented_def)
  have slot: "slots feedback_5 ''OnPresented'' = Some 3" by (simp add: feedback_5_def)
  have h: "hnd feedback_5 = 5" by (simp add: feedback_5_def)
  have v: "uint32_of_slot (args_const 10 k) = VInt TUint32 10" for k
    by (simp add: uint32_of_slot_def args_const_def)
  have u: "usr_quiet 3 [uint32_of_slot (args_const 10 0), uint32_of_slot (args_const 10 1),
             uint32_of_slot (args_const 10 2), uint32_of_slot (args_const 10 3),
             uint32_of_slot (args_const 10 4), uint32_of_slot (args_const 10 5),
             uint32_of_slot (args_const 10 6)] (proxies display_feedback)
           = Some (proxies display_feedback)"
    by (simp add: usr_quiet_def)
  from delegated_receiver_first [OF reg int nm res, of usr_quiet memory_empty "args_const 10" 3
      "proxies display_feedback"] ty cs name sig slot u
  have "dispatcher usr_quiet memory_empty display_feedback 5 msg_presented (args_const 10)
       = (Inr (display_feedback_cached\<lparr>proxies := forget (proxies display_feedback) (hnd feedback_5)\<rparr>),
          [EvMethodByName wpPresentationFeedback_ptr ''Presented''] @
          [EvCallMethod ''Presented''
             [VRecv wpPresentationFeedback_ptr feedback_5,
              uint32_of_slot (args_const 10 0), uint32_of_slot (args_const 10 1),
              uint32_of_slot (args_const 10 2), uint32_of_slot (args_const 10 3),
              uint32_of_slot (args_const 10 4), uint32_of_slot (args_const 10 5),
              uint32_of_slot (args_const 10 6)],
           EvCallUser 3
             [uint32_of_slot (args_const 10 0), uint32_of_slot (args_const 10 1),
              uint32_of_slot (args_const 10 2), uint32_of_slot (args_const 10 3),
              uint32_of_slot (args_const 10 4), uint32_of_slot (args_const 10 5),
              uint32_of_slot (args_const 10 6)]])
      \<and> proxies (display_feedback_cached\<lparr>proxies := forget (proxies display_feedback) (hnd feedback_5)\<rparr>)
            (hnd feedback_5) = None"
    by blast
  then have d: "dispatcher usr_quiet memory_empty display_feedback 5 msg_presented (args_const 10)
       = (Inr (display_feedback_cached\<lparr>proxies := forget (proxies display_feedback) 5\<rparr>),
          [EvMethodByName wpPresentationFeedback_ptr ''Presented'',
           EvCallMethod ''Presented''
             [VRecv wpPresentationFeedback_ptr feedback_5,
              VInt TUint32 10, VInt TUint32 10, VInt TUint32 10, VInt TUint32 10,
              VInt TUint32 10, VInt TUint32 10, VInt TUint32 10],
           EvCallUser 3
             [VInt TUint32 10, VInt TUint32 10, VInt TUint32 10, VInt TUint32 10,
              VInt TUint32 10, VInt TUint32 10, VInt TUint32 10]])
      \<and> proxies (display_feedback_cached\<lparr>proxies := forget (proxies display_feedback) 5\<rparr>) 5 = None"
    by (simp only: v h append.simps)
  from reg int nm res ty cs name sig slot d show ?thesis by blast
qed


end
